theory Spec2Isabelle
  imports Main
begin

section \<open>The chat page: \<open>src/pages/Chat.tsx\<close>\<close>

text \<open>
  The component \<open>Chat\<close> keeps nine pieces of React state and talks to three collaborators
  that are not part of the repository's visible source: the peer session service
  \<open>webRTCService\<close>, the toast notifier and the router. The model is a record holding the
  React state together with a log of everything the component asks of its collaborators,
  and one function per handler of the source that maps a world to the next one.

  A media stream is an opaque handle; it is modelled by its identifier. The values that
  \<open>uuidv4()\<close> and \<open>new Date()\<close> return are inputs of the handlers that call them.
  Output on the console is not modelled.
\<close>

type_synonym stream = string
type_synonym peer = string

datatype sender = Me | Stranger

record message =
  msg_id :: string
  msg_sender :: sender
  msg_text :: string
  msg_timestamp :: nat

text \<open>The payload of a data-channel message: the source reads its fields \<open>type\<close> and \<open>text\<close>.\<close>

record payload =
  data_type :: string
  data_text :: string

record toast =
  title :: string
  description :: string
  variant :: "string option"

text \<open>Every call the component makes on \<open>webRTCService\<close>, and on the unsubscribe handles it returned.\<close>

datatype service_call =
    GetLocalStream
  | OnMessage
  | OnStream
  | OnConnectionStateChange
  | DisconnectFromPeer peer
  | ConnectToRandomUser
  | GetRemoteStream peer
  | SendMessage peer payload
  | ToggleAudio bool
  | ToggleVideo bool
  | Cleanup
  | UnsubscribeMessage
  | UnsubscribeStream
  | UnsubscribeConnectionState

text \<open>
  The first nine fields are the \<open>useState\<close> cells of the component, with the source's names.
  The others record effects: the service calls made so far, the toasts shown, whether the
  promise of \<open>getLocalStream\<close> is outstanding, the outstanding promises of
  \<open>connectToRandomUser\<close>, the armed timers, every delay ever passed to \<open>setTimeout\<close>, the
  routes navigated to and the number of calls of \<open>logout\<close>.

  \<open>findNewPeer\<close> is a \<open>useCallback\<close> closure over \<open>currentPeerId\<close>: an outstanding promise and
  an armed timer belong to one such closure, and each is stored with the value of
  \<open>currentPeerId\<close> which that closure captured.
\<close>

record world =
  localStream :: "stream option"
  remoteStream :: "stream option"
  currentPeerId :: "peer option"
  isMuted :: bool
  isVideoEnabled :: bool
  isChatOpen :: bool
  messages :: "message list"
  connecting :: bool
  connectionStatus :: string
  calls :: "service_call list"
  toasts :: "toast list"
  mediaPending :: bool
  pending :: "peer option list"
  timers :: "(nat \<times> peer option) list"
  timeouts :: "nat list"
  navigations :: "string list"
  logouts :: nat

text \<open>The world at the first render: the initial values of the \<open>useState\<close> cells, nothing done yet.\<close>

definition initial :: world where
  "initial = \<lparr> localStream = None, remoteStream = None, currentPeerId = None,
     isMuted = False, isVideoEnabled = True, isChatOpen = False, messages = [],
     connecting = False, connectionStatus = ''Connecting...'',
     calls = [], toasts = [], mediaPending = False, pending = [], timers = [],
     timeouts = [], navigations = [], logouts = 0 \<rparr>"

text \<open>JavaScript truthiness of a value of type \<open>string | null\<close>: \<open>null\<close> and the empty string are falsy.\<close>

fun truthy :: "string option \<Rightarrow> bool" where
  "truthy None = False"
| "truthy (Some s) = (s \<noteq> [])"

subsection \<open>\<open>findNewPeer\<close>\<close>

text \<open>
  The synchronous part of \<open>findNewPeer\<close>, up to the \<open>await\<close>. The argument \<open>c\<close> is the
  \<open>currentPeerId\<close> the closure captured, which is what the guard of \<open>disconnectFromPeer\<close>
  reads.
\<close>

definition disconnect_existing :: "peer option \<Rightarrow> world \<Rightarrow> world" where
  "disconnect_existing c w =
     (case c of
        None \<Rightarrow> w
      | Some p \<Rightarrow> if p \<noteq> [] then w\<lparr> calls := calls w @ [DisconnectFromPeer p] \<rparr> else w)"

definition findNewPeer :: "peer option \<Rightarrow> world \<Rightarrow> world" where
  "findNewPeer c w =
     (let w1 = disconnect_existing c w in
      w1\<lparr> remoteStream := None, currentPeerId := None, messages := [],
          connecting := True, connectionStatus := ''Looking for a partner...'',
          calls := calls w1 @ [ConnectToRandomUser],
          pending := pending w1 @ [c] \<rparr>)"

text \<open>
  The continuation after \<open>await webRTCService.connectToRandomUser()\<close> returned \<open>peerId\<close>;
  \<open>rs\<close> is what \<open>getRemoteStream(peerId)\<close> answers.
\<close>

definition findNewPeer_resolved :: "peer \<Rightarrow> stream option \<Rightarrow> world \<Rightarrow> world" where
  "findNewPeer_resolved peerId rs w =
     (let w1 = w\<lparr> currentPeerId := Some peerId,
                  connectionStatus := ''Establishing connection...'',
                  calls := calls w @ [GetRemoteStream peerId] \<rparr> in
      case rs of
        None \<Rightarrow> w1
      | Some s \<Rightarrow> w1\<lparr> remoteStream := Some s, connecting := False \<rparr>)"

text \<open>The \<open>catch\<close> branch: the status line changes and \<open>setTimeout(findNewPeer, 3000)\<close> arms a timer.\<close>

definition findNewPeer_rejected :: "peer option \<Rightarrow> world \<Rightarrow> world" where
  "findNewPeer_rejected c w =
     w\<lparr> connectionStatus := ''Connection failed. Retrying...'',
        timers := timers w @ [(3000, c)],
        timeouts := timeouts w @ [3000] \<rparr>"

subsection \<open>The effect run on mount\<close>

text \<open>
  The effect calls \<open>init\<close>, which runs up to \<open>await webRTCService.getLocalStream()\<close>, and then
  registers the three listeners. Its closures are those of the first render, so the
  \<open>findNewPeer\<close> that \<open>init\<close> calls captured \<open>currentPeerId = null\<close>.
\<close>

definition mount :: "world \<Rightarrow> world" where
  "mount w = w\<lparr> calls := calls w @ [GetLocalStream, OnMessage, OnStream, OnConnectionStateChange],
               mediaPending := True \<rparr>"

definition init_resolved :: "stream \<Rightarrow> world \<Rightarrow> world" where
  "init_resolved s w = findNewPeer None (w\<lparr> localStream := Some s \<rparr>)"

definition init_rejected :: "world \<Rightarrow> world" where
  "init_rejected w =
     w\<lparr> toasts := toasts w @
          [\<lparr> title = ''Camera access error'',
             description = ''Please allow camera and microphone access to use this app.'',
             variant = Some ''destructive'' \<rparr>] \<rparr>"

definition unmount :: "world \<Rightarrow> world" where
  "unmount w = w\<lparr> calls := calls w @
     [Cleanup, UnsubscribeMessage, UnsubscribeStream, UnsubscribeConnectionState] \<rparr>"

subsection \<open>The three listeners\<close>

definition onMessage :: "peer \<Rightarrow> payload \<Rightarrow> string \<Rightarrow> nat \<Rightarrow> world \<Rightarrow> world" where
  "onMessage peerId d uuid now w =
     (if data_type d = ''chat''
      then w\<lparr> messages := messages w @
                [\<lparr> msg_id = uuid, msg_sender = Stranger, msg_text = data_text d,
                   msg_timestamp = now \<rparr>] \<rparr>
      else w)"

definition onStream :: "peer \<Rightarrow> stream \<Rightarrow> world \<Rightarrow> world" where
  "onStream peerId s w =
     w\<lparr> remoteStream := Some s, connecting := False,
        toasts := toasts w @
          [\<lparr> title = ''Connected!'',
             description = ''You're now chatting with a stranger.'',
             variant = None \<rparr>] \<rparr>"

definition onConnectionStateChange :: "peer \<Rightarrow> string \<Rightarrow> world \<Rightarrow> world" where
  "onConnectionStateChange peerId state w =
     (if state = ''disconnected'' \<or> state = ''failed'' \<or> state = ''closed''
      then w\<lparr> remoteStream := None, currentPeerId := None, messages := [],
              toasts := toasts w @
                [\<lparr> title = ''Disconnected'',
                   description = ''The other person has left the chat.'',
                   variant = None \<rparr>] \<rparr>
      else w)"

subsection \<open>The user's actions\<close>

text \<open>
  A handler made by \<open>useCallback\<close> reads the state of the render that created it. A user
  action is dispatched after the component has rendered the current state, so the
  handlers below read the world they are applied to.
\<close>

definition handleSendMessage :: "string \<Rightarrow> string \<Rightarrow> nat \<Rightarrow> world \<Rightarrow> world" where
  "handleSendMessage txt uuid now w =
     (case currentPeerId w of
        None \<Rightarrow> w
      | Some p \<Rightarrow>
          if p = [] then w
          else w\<lparr> messages := messages w @
                    [\<lparr> msg_id = uuid, msg_sender = Me, msg_text = txt, msg_timestamp = now \<rparr>],
                  calls := calls w @ [SendMessage p \<lparr> data_type = ''chat'', data_text = txt \<rparr>] \<rparr>)"

definition handleToggleMute :: "world \<Rightarrow> world" where
  "handleToggleMute w =
     (let newMuteState = \<not> isMuted w in
      w\<lparr> isMuted := newMuteState, calls := calls w @ [ToggleAudio (\<not> newMuteState)] \<rparr>)"

definition handleToggleVideo :: "world \<Rightarrow> world" where
  "handleToggleVideo w =
     (let newVideoState = \<not> isVideoEnabled w in
      w\<lparr> isVideoEnabled := newVideoState, calls := calls w @ [ToggleVideo newVideoState] \<rparr>)"

definition onToggleChat :: "world \<Rightarrow> world" where
  "onToggleChat w = w\<lparr> isChatOpen := \<not> isChatOpen w \<rparr>"

definition handleSkip :: "world \<Rightarrow> world" where
  "handleSkip w =
     findNewPeer (currentPeerId w)
       (w\<lparr> toasts := toasts w @
             [\<lparr> title = ''Finding new partner'',
                description = ''Looking for someone new to chat with...'',
                variant = None \<rparr>] \<rparr>)"

definition handleEndChat :: "world \<Rightarrow> world" where
  "handleEndChat w = w\<lparr> calls := calls w @ [Cleanup], navigations := navigations w @ [''/''] \<rparr>"

definition handleLogout :: "world \<Rightarrow> world" where
  "handleLogout w = w\<lparr> calls := calls w @ [Cleanup], logouts := Suc (logouts w),
                      navigations := navigations w @ [''/''] \<rparr>"

subsection \<open>Events\<close>

text \<open>
  Everything that can happen to the mounted component. An event which settles a promise or
  fires a timer names it by its position among the outstanding ones; such an event cannot
  occur when there is none at that position, and \<open>step\<close> then leaves the world as it is.
\<close>

datatype event =
    MediaOk stream
  | MediaFail
  | PeerResolved nat peer "stream option"
  | PeerRejected nat
  | TimerFired nat
  | MessageEv peer payload string nat
  | StreamEv peer stream
  | ConnectionStateEv peer string
  | Send string string nat
  | ToggleMute
  | ToggleVideoEv
  | ToggleChat
  | Skip
  | EndChat
  | Logout

definition remove_nth :: "nat \<Rightarrow> 'a list \<Rightarrow> 'a list" where
  "remove_nth i xs = take i xs @ drop (Suc i) xs"

fun step :: "event \<Rightarrow> world \<Rightarrow> world" where
  "step (MediaOk s) w =
     (if mediaPending w then init_resolved s (w\<lparr> mediaPending := False \<rparr>) else w)"
| "step MediaFail w =
     (if mediaPending w then init_rejected (w\<lparr> mediaPending := False \<rparr>) else w)"
| "step (PeerResolved i p rs) w =
     (if i < length (pending w)
      then findNewPeer_resolved p rs (w\<lparr> pending := remove_nth i (pending w) \<rparr>)
      else w)"
| "step (PeerRejected i) w =
     (if i < length (pending w)
      then findNewPeer_rejected (pending w ! i) (w\<lparr> pending := remove_nth i (pending w) \<rparr>)
      else w)"
| "step (TimerFired i) w =
     (if i < length (timers w)
      then findNewPeer (snd (timers w ! i)) (w\<lparr> timers := remove_nth i (timers w) \<rparr>)
      else w)"
| "step (MessageEv p d uuid now) w = onMessage p d uuid now w"
| "step (StreamEv p s) w = onStream p s w"
| "step (ConnectionStateEv p state) w = onConnectionStateChange p state w"
| "step (Send txt uuid now) w = handleSendMessage txt uuid now w"
| "step ToggleMute w = handleToggleMute w"
| "step ToggleVideoEv w = handleToggleVideo w"
| "step ToggleChat w = onToggleChat w"
| "step Skip w = handleSkip w"
| "step EndChat w = handleEndChat w"
| "step Logout w = handleLogout w"

fun run :: "event list \<Rightarrow> world \<Rightarrow> world" where
  "run [] w = w"
| "run (e # es) w = run es (step e w)"

text \<open>
  \<open>uuidv4\<close> belongs to the package \<open>uuid\<close>, outside the repository; the identifier it
  returns is the \<open>uuid\<close> argument of the two handlers that call it. The listener calls it
  only in the branch for type \<open>chat\<close> and \<open>handleSendMessage\<close> only behind its guard.
  \<open>uuid_call\<close> is the identifier one event makes \<open>uuidv4\<close> return, if it calls it, and
  \<open>uuid_calls\<close> lists the identifiers returned during a run, in order.
\<close>

fun uuid_call :: "event \<Rightarrow> world \<Rightarrow> string list" where
  "uuid_call (MessageEv p d uuid now) w = (if data_type d = ''chat'' then [uuid] else [])"
| "uuid_call (Send txt uuid now) w = (if truthy (currentPeerId w) then [uuid] else [])"
| "uuid_call _ w = []"

fun uuid_calls :: "event list \<Rightarrow> world \<Rightarrow> string list" where
  "uuid_calls [] w = []"
| "uuid_calls (e # es) w = uuid_call e w @ uuid_calls es (step e w)"

text \<open>
  The retry scenario: \<open>n\<close> times in a row the only outstanding request fails and the
  timer it armed fires.
\<close>

definition retries :: "nat \<Rightarrow> event list" where
  "retries n = concat (replicate n [PeerRejected 0, TimerFired 0])"

text \<open>Nothing is outstanding: no promise of the service and no timer.\<close>

definition quiet :: "world \<Rightarrow> bool" where
  "quiet w = (\<not> mediaPending w \<and> pending w = [] \<and> timers w = [])"

section \<open>The visitor counter: \<open>src/components/VisitorCounter.tsx\<close>\<close>

text \<open>
  The effect of the component reads and writes the browser's \<open>localStorage\<close> and
  \<open>sessionStorage\<close>, modelled as maps from keys to strings, and sets the component's state
  \<open>visitorCount\<close>.

  A JavaScript number that \<open>parseInt\<close> can return is \<open>NaN\<close> or an integer-valued double.
  \<open>Num n\<close> stands for the double of value \<open>n\<close>; doubles represent integers exactly up to
  \<open>2 ^ 53\<close> in absolute value and print them in plain decimal notation there, so the
  arithmetic and the printing below are those of JavaScript in that range. Strings are
  sequences of 8-bit characters: of the white space that \<open>parseInt\<close> skips, the ASCII part
  is modelled.
\<close>

datatype jsnum = NaN | Num int

definition is_space :: "char \<Rightarrow> bool" where
  "is_space c = (of_char c \<in> {9, 10, 11, 12, 13, 32 :: nat})"

definition is_digit :: "char \<Rightarrow> bool" where
  "is_digit c = (48 \<le> (of_char c :: nat) \<and> (of_char c :: nat) \<le> 57)"

definition digit_val :: "char \<Rightarrow> nat" where
  "digit_val c = of_char c - 48"

definition digit_char :: "nat \<Rightarrow> char" where
  "digit_char d = char_of (48 + d)"

definition digits_val :: "string \<Rightarrow> nat" where
  "digits_val z = foldl (\<lambda>a c. 10 * a + digit_val c) 0 z"

text \<open>
  \<open>parseInt(s, 10)\<close>: leading white space is skipped, one sign is read, then the longest
  run of decimal digits; the rest of the string is ignored. Without a digit the result
  is \<open>NaN\<close>.
\<close>

definition parseInt10 :: "string \<Rightarrow> jsnum" where
  "parseInt10 s =
     (let t = dropWhile is_space s;
          neg = (t \<noteq> [] \<and> hd t = CHR ''-'');
          u = (if t \<noteq> [] \<and> (hd t = CHR ''+'' \<or> hd t = CHR ''-'') then tl t else t);
          z = takeWhile is_digit u
      in if z = [] then NaN
         else Num ((if neg then - 1 else 1) * int (digits_val z)))"

text \<open>The decimal digits of a natural number, most significant first.\<close>

fun dec :: "nat \<Rightarrow> string" where
  "dec n = (if n < 10 then [digit_char n] else dec (n div 10) @ [digit_char (n mod 10)])"

text \<open>\<open>Number.prototype.toString()\<close> and the addition \<open>currentCount + 1\<close>.\<close>

fun toString :: "jsnum \<Rightarrow> string" where
  "toString NaN = ''NaN''"
| "toString (Num n) = (if n < 0 then CHR ''-'' # dec (nat (- n)) else dec (nat n))"

fun plus_one :: "jsnum \<Rightarrow> jsnum" where
  "plus_one NaN = NaN"
| "plus_one (Num n) = Num (n + 1)"

record browser =
  localStorage :: "string \<rightharpoonup> string"
  sessionStorage :: "string \<rightharpoonup> string"
  visitorCount :: jsnum

text \<open>
  The first two statements of the effect: \<open>getItem\<close> answers \<open>null\<close> for a missing key, and
  the conditional takes \<open>0\<close> for \<open>null\<close> and for the empty string.
\<close>

definition currentCount :: "(string \<rightharpoonup> string) \<Rightarrow> jsnum" where
  "currentCount ls =
     (case ls ''visitor-count'' of
        None \<Rightarrow> Num 0
      | Some storedCount \<Rightarrow> if storedCount \<noteq> [] then parseInt10 storedCount else Num 0)"

text \<open>The effect that runs when the component mounts.\<close>

definition VisitorCounter_effect :: "browser \<Rightarrow> browser" where
  "VisitorCounter_effect b =
     (let cur = currentCount (localStorage b) in
      if \<not> truthy (sessionStorage b ''counted-visit'')
      then let newCount = plus_one cur in
           b\<lparr> localStorage := (localStorage b)(''visitor-count'' \<mapsto> toString newCount),
              sessionStorage := (sessionStorage b)(''counted-visit'' \<mapsto> ''true''),
              visitorCount := newCount \<rparr>
      else b\<lparr> visitorCount := cur \<rparr>)"

text \<open>A browser that never opened the page: both stores are empty.\<close>

definition first_visit :: browser where
  "first_visit = \<lparr> localStorage = Map.empty, sessionStorage = Map.empty, visitorCount = Num 0 \<rparr>"

section \<open>Properties of the chat page\<close>

lemmas handler_defs = findNewPeer_def disconnect_existing_def findNewPeer_resolved_def
  findNewPeer_rejected_def init_resolved_def init_rejected_def onMessage_def onStream_def
  onConnectionStateChange_def handleSendMessage_def handleToggleMute_def handleToggleVideo_def
  onToggleChat_def handleSkip_def handleEndChat_def handleLogout_def

lemma run_append: "run (es @ fs) w = run fs (run es w)"
  by (induction es arbitrary: w) simp_all


subsection \<open>A response that arrives after a skip\<close>




subsection \<open>The message list\<close>

text \<open>
  C2 (counterexample). Two runs in which the message list is not empty although no remote
  stream is attached. In the first a peer id has been obtained, the remote stream has not
  arrived yet and the overlay is still shown, and the user sends a message. In the second
  a peer is still being sought, there is no peer id at all, and a chat message is received.
\<close>

theorem messages_outside_connected_counterexample:
  "messages (run [MediaOk ''cam'', PeerResolved 0 ''peer-A'' None, Send ''hi'' ''u1'' 5] (mount initial))
     = [\<lparr> msg_id = ''u1'', msg_sender = Me, msg_text = ''hi'', msg_timestamp = 5 \<rparr>] \<and>
   remoteStream (run [MediaOk ''cam'', PeerResolved 0 ''peer-A'' None, Send ''hi'' ''u1'' 5] (mount initial))
     = None \<and>
   connecting (run [MediaOk ''cam'', PeerResolved 0 ''peer-A'' None, Send ''hi'' ''u1'' 5] (mount initial)) \<and>
   messages (run [MediaOk ''cam'', MessageEv ''peer-B'' \<lparr> data_type = ''chat'', data_text = ''yo'' \<rparr> ''u2'' 6]
               (mount initial))
     = [\<lparr> msg_id = ''u2'', msg_sender = Stranger, msg_text = ''yo'', msg_timestamp = 6 \<rparr>] \<and>
   currentPeerId (run [MediaOk ''cam'', MessageEv ''peer-B'' \<lparr> data_type = ''chat'', data_text = ''yo'' \<rparr> ''u2'' 6]
               (mount initial)) = None \<and>
   remoteStream (run [MediaOk ''cam'', MessageEv ''peer-B'' \<lparr> data_type = ''chat'', data_text = ''yo'' \<rparr> ''u2'' 6]
               (mount initial)) = None"
  by (simp add: mount_def initial_def handler_defs remove_nth_def)

lemma findNewPeer_messages: "messages (findNewPeer c w) = []"
  by (simp add: findNewPeer_def Let_def)

lemma step_messages_grow:
  "length (messages w) < length (messages (step e w)) \<Longrightarrow>
     (\<exists>p d u t. e = MessageEv p d u t \<and> data_type d = ''chat'') \<or>
     (\<exists>x u t. e = Send x u t \<and> truthy (currentPeerId w))"
  by (cases e) (auto simp: handler_defs Let_def split: option.splits if_splits)

lemma msg_step:
  "data_type d = ''chat'' \<Longrightarrow>
     messages (step (MessageEv p d u t) w) =
       messages w @ [\<lparr> msg_id = u, msg_sender = Stranger, msg_text = data_text d,
                       msg_timestamp = t \<rparr>]"
  by (simp add: onMessage_def)

lemma send_step:
  "truthy (currentPeerId w) \<Longrightarrow>
     messages (step (Send x u t) w) =
       messages w @ [\<lparr> msg_id = u, msg_sender = Me, msg_text = x, msg_timestamp = t \<rparr>]"
  by (cases "currentPeerId w") (simp_all add: handleSendMessage_def)

text \<open>
  C2 (as the code behaves). The message list is empty immediately after \<open>findNewPeer\<close> has
  reset the state, whatever events came before. The list is not confined to the time a
  remote stream is attached: in every state a received message of type \<open>chat\<close> is appended
  to it, a sent message is appended to it whenever a peer id is set, and no other event
  makes it grow.
\<close>

theorem messages_empty_on_seeking:
  "messages (findNewPeer c w) = [] \<and>
   messages (run (es @ [Skip]) w) = [] \<and>
   (data_type d = ''chat'' \<longrightarrow>
      messages (step (MessageEv p d u t) w) =
        messages w @ [\<lparr> msg_id = u, msg_sender = Stranger, msg_text = data_text d,
                        msg_timestamp = t \<rparr>]) \<and>
   (truthy (currentPeerId w) \<longrightarrow>
      messages (step (Send x u t) w) =
        messages w @ [\<lparr> msg_id = u, msg_sender = Me, msg_text = x, msg_timestamp = t \<rparr>]) \<and>
   (length (messages w) < length (messages (step e w)) \<longrightarrow>
      (\<exists>p d u t. e = MessageEv p d u t \<and> data_type d = ''chat'') \<or>
      (\<exists>x u t. e = Send x u t \<and> truthy (currentPeerId w)))"
  using step_messages_grow [of w e] msg_step [of d p u t w] send_step [of w x u t]
  by (simp add: findNewPeer_messages run_append handleSkip_def)

theorem messages_empty_on_seeking_witness:
  "data_type \<lparr> data_type = ''chat'', data_text = ''yo'' \<rparr> = ''chat'' \<and>
   currentPeerId (run [MediaOk ''cam''] (mount initial)) = None \<and>
   messages (step (MessageEv ''peer-B'' \<lparr> data_type = ''chat'', data_text = ''yo'' \<rparr> ''u2'' 6)
      (run [MediaOk ''cam''] (mount initial))) =
     [\<lparr> msg_id = ''u2'', msg_sender = Stranger, msg_text = ''yo'', msg_timestamp = 6 \<rparr>] \<and>
   truthy (currentPeerId (run [MediaOk ''cam'', PeerResolved 0 ''peer-A'' None] (mount initial))) \<and>
   remoteStream (run [MediaOk ''cam'', PeerResolved 0 ''peer-A'' None] (mount initial)) = None \<and>
   messages (step (Send ''hi'' ''u1'' 5)
      (run [MediaOk ''cam'', PeerResolved 0 ''peer-A'' None] (mount initial))) =
     [\<lparr> msg_id = ''u1'', msg_sender = Me, msg_text = ''hi'', msg_timestamp = 5 \<rparr>] \<and>
   length (messages (run [MediaOk ''cam'', PeerResolved 0 ''peer-A'' None] (mount initial)))
     < length (messages (step (Send ''hi'' ''u1'' 5)
         (run [MediaOk ''cam'', PeerResolved 0 ''peer-A'' None] (mount initial)))) \<and>
   ((\<exists>p d u t. Send ''hi'' ''u1'' 5 = MessageEv p d u t \<and> data_type d = ''chat'') \<or>
    (\<exists>x u t. Send ''hi'' ''u1'' 5 = Send x u t \<and>
       truthy (currentPeerId (run [MediaOk ''cam'', PeerResolved 0 ''peer-A'' None] (mount initial))))) \<and>
   messages (run ([Send ''hi'' ''u1'' 5] @ [Skip])
      (run [MediaOk ''cam'', PeerResolved 0 ''peer-A'' None] (mount initial))) = []"
proof -
  let ?d = "\<lparr> data_type = ''chat'', data_text = ''yo'' \<rparr>"
  let ?s = "run [MediaOk ''cam''] (mount initial)"
  let ?w = "run [MediaOk ''cam'', PeerResolved 0 ''peer-A'' None] (mount initial)"
  have h: "data_type ?d = ''chat''"
    by simp
  have s: "currentPeerId ?s = None" "messages ?s = []"
    by (simp_all add: mount_def initial_def handler_defs)
  have w: "truthy (currentPeerId ?w)" "remoteStream ?w = None" "messages ?w = []"
    by (simp_all add: mount_def initial_def handler_defs remove_nth_def)
  note t1 = messages_empty_on_seeking
    [of None ?s "[]" ?d "''peer-B''" "''u2''" 6 "''hi''" "Send ''hi'' ''u1'' 5"]
  note t2 = messages_empty_on_seeking
    [of None ?w "[Send ''hi'' ''u1'' 5]" ?d "''peer-B''" "''u1''" 5 "''hi''" "Send ''hi'' ''u1'' 5"]
  from t1 h have "messages (step (MessageEv ''peer-B'' ?d ''u2'' 6) ?s) =
      messages ?s @ [\<lparr> msg_id = ''u2'', msg_sender = Stranger, msg_text = data_text ?d,
                        msg_timestamp = 6 \<rparr>]"
    by blast
  then have a: "messages (step (MessageEv ''peer-B'' ?d ''u2'' 6) ?s) =
     [\<lparr> msg_id = ''u2'', msg_sender = Stranger, msg_text = ''yo'', msg_timestamp = 6 \<rparr>]"
    by (simp only: s append_Nil) simp
  from t2 w(1) have "messages (step (Send ''hi'' ''u1'' 5) ?w) =
      messages ?w @ [\<lparr> msg_id = ''u1'', msg_sender = Me, msg_text = ''hi'', msg_timestamp = 5 \<rparr>]"
    by blast
  then have b: "messages (step (Send ''hi'' ''u1'' 5) ?w) =
     [\<lparr> msg_id = ''u1'', msg_sender = Me, msg_text = ''hi'', msg_timestamp = 5 \<rparr>]"
    by (simp only: w append_Nil)
  have g: "length (messages ?w) < length (messages (step (Send ''hi'' ''u1'' 5) ?w))"
    by (simp only: b w) simp
  from t2 g have c: "(\<exists>p d u t. Send ''hi'' ''u1'' 5 = MessageEv p d u t \<and> data_type d = ''chat'') \<or>
    (\<exists>x u t. Send ''hi'' ''u1'' 5 = Send x u t \<and> truthy (currentPeerId ?w))"
    by blast
  from t2 have e: "messages (run ([Send ''hi'' ''u1'' 5] @ [Skip]) ?w) = []"
    by blast
  from h s(1) a w(1,2) b g c e show ?thesis by blast
qed

subsection \<open>Sending and receiving messages\<close>

text \<open>
  C4. Sending a message while the current peer id is \<open>null\<close> does nothing, whatever the
  text: the world is returned as it is, so no message is appended and no call is made on
  the service.
\<close>

theorem send_without_peer_noop:
  "currentPeerId w = None \<Longrightarrow>
     handleSendMessage txt uuid now w = w \<and>
     messages (step (Send txt uuid now) w) = messages w \<and>
     calls (step (Send txt uuid now) w) = calls w"
  by (simp add: handleSendMessage_def)

theorem send_without_peer_noop_witness:
  "currentPeerId (mount initial) = None \<and>
   handleSendMessage ''hello'' ''u1'' 5 (mount initial) = mount initial \<and>
   messages (step (Send ''hello'' ''u1'' 5) (mount initial)) = messages (mount initial) \<and>
   calls (step (Send ''hello'' ''u1'' 5) (mount initial)) = calls (mount initial)"
  using send_without_peer_noop [of "mount initial" "''hello''" "''u1''" 5]
  by (simp add: mount_def initial_def)

lemma uuid_calls_append:
  "uuid_calls (es @ fs) w = uuid_calls es w @ uuid_calls fs (run es w)"
  by (induction es arbitrary: w) simp_all

lemma step_ids:
  "map msg_id (messages (step e w)) = uuid_call e w \<or>
   map msg_id (messages (step e w)) = map msg_id (messages w) @ uuid_call e w"
  by (cases e) (auto simp: handler_defs Let_def split: option.splits)

lemma step_ids_subset:
  "set (map msg_id (messages (step e w))) \<subseteq> set (map msg_id (messages w)) \<union> set (uuid_call e w)"
proof -
  from step_ids [of e w] consider
      (fresh) "map msg_id (messages (step e w)) = uuid_call e w"
    | (kept) "map msg_id (messages (step e w)) = map msg_id (messages w) @ uuid_call e w"
    by blast
  then show ?thesis
  proof cases
    case fresh
    show ?thesis unfolding fresh by blast
  next
    case kept
    show ?thesis unfolding kept by simp
  qed
qed

lemma step_ids_distinct:
  assumes "distinct (map msg_id (messages w) @ uuid_call e w)"
  shows "distinct (map msg_id (messages (step e w)))"
proof -
  from step_ids [of e w] consider
      (fresh) "map msg_id (messages (step e w)) = uuid_call e w"
    | (kept) "map msg_id (messages (step e w)) = map msg_id (messages w) @ uuid_call e w"
    by blast
  then show ?thesis
  proof cases
    case fresh
    from assms have "distinct (uuid_call e w)" by simp
    then show ?thesis by (simp only: fresh)
  next
    case kept
    from assms show ?thesis by (simp only: kept)
  qed
qed

lemma run_ids_distinct:
  "distinct (map msg_id (messages w) @ uuid_calls es w) \<Longrightarrow>
     distinct (map msg_id (messages (run es w)))"
proof (induction es arbitrary: w)
  case Nil
  then show ?case by simp
next
  case (Cons e es)
  let ?a = "map msg_id (messages w)"
  let ?b = "uuid_call e w"
  let ?c = "uuid_calls es (step e w)"
  from Cons.prems have d: "distinct (?a @ ?b @ ?c)" by simp
  have s: "set (map msg_id (messages (step e w))) \<subseteq> set ?a \<union> set ?b"
    by (rule step_ids_subset)
  from d have "distinct (?a @ ?b)" by auto
  then have d1: "distinct (map msg_id (messages (step e w)))"
    by (rule step_ids_distinct)
  from d have d2: "distinct ?c" and d3: "(set ?a \<union> set ?b) \<inter> set ?c = {}"
    by auto
  from s d3 have "set (map msg_id (messages (step e w))) \<inter> set ?c = {}"
    by blast
  with d1 d2 have "distinct (map msg_id (messages (step e w)) @ ?c)"
    by simp
  from Cons.IH [OF this] show ?case by simp
qed

lemma run_ids_subset:
  "set (map msg_id (messages (run es w))) \<subseteq> set (map msg_id (messages w)) \<union> set (uuid_calls es w)"
proof (induction es arbitrary: w)
  case Nil
  show ?case by simp
next
  case (Cons e es)
  have "set (map msg_id (messages (run (e # es) w))) \<subseteq>
        set (map msg_id (messages (step e w))) \<union> set (uuid_calls es (step e w))"
    using Cons.IH [of "step e w"] by simp
  also have "\<dots> \<subseteq> (set (map msg_id (messages w)) \<union> set (uuid_call e w)) \<union> set (uuid_calls es (step e w))"
    using step_ids_subset [of e w] by blast
  finally show ?case by auto
qed

lemma run_ids_suffix:
  "\<exists>pre. map msg_id (messages w) @ uuid_calls es w = pre @ map msg_id (messages (run es w))"
proof (induction es arbitrary: w)
  case Nil
  show ?case by simp
next
  case (Cons e es)
  from step_ids [of e w] obtain q where
    q: "map msg_id (messages w) @ uuid_call e w = q @ map msg_id (messages (step e w))"
    by (metis append_Nil)
  from Cons.IH [of "step e w"] obtain pre where
    p: "map msg_id (messages (step e w)) @ uuid_calls es (step e w) =
        pre @ map msg_id (messages (run es (step e w)))"
    by blast
  have "map msg_id (messages w) @ uuid_calls (e # es) w =
        (map msg_id (messages w) @ uuid_call e w) @ uuid_calls es (step e w)"
    by simp
  also have "\<dots> = q @ (map msg_id (messages (step e w)) @ uuid_calls es (step e w))"
    by (simp only: q append_assoc)
  also have "\<dots> = (q @ pre) @ map msg_id (messages (run (e # es) w))"
    by (simp only: p append_assoc run.simps)
  finally show ?case by blast
qed

lemma mount_ids_suffix:
  "\<exists>pre. uuid_calls es (mount initial) = pre @ map msg_id (messages (run es (mount initial)))"
proof -
  have "messages (mount initial) = []"
    by (simp add: mount_def initial_def)
  with run_ids_suffix [of "mount initial" es] show ?thesis by simp
qed

text \<open>
  C9. A received message whose payload has type \<open>chat\<close> appends one message with sender
  \<open>stranger\<close>, the payload's text and the identifier that \<open>uuidv4()\<close> returned, and changes
  nothing else. Neither the peer id of the event nor the current peer id is consulted, so
  this holds for a peer that is not the current one and when there is no current peer.
  The identifier is fresh and unique: in every run of the mounted component in which
  \<open>uuidv4\<close> keeps its contract of never returning the same identifier twice, the identifier
  of the appended message is carried by no message of the list, sent or received, and the
  identifiers of the list after the event are pairwise distinct. In every run, whatever
  \<open>uuidv4\<close> returns, the identifiers of the list are the identifiers \<open>uuidv4\<close> returned
  last, one message for each call and in the order of the calls.
\<close>

theorem chat_message_appended:
  assumes "data_type d = ''chat''"
  shows "onMessage peerId d uuid now w =
           w\<lparr> messages := messages w @
                [\<lparr> msg_id = uuid, msg_sender = Stranger, msg_text = data_text d,
                   msg_timestamp = now \<rparr>] \<rparr> \<and>
         (\<exists>pre. uuid_calls (es @ [MessageEv peerId d uuid now]) (mount initial) =
            pre @ map msg_id (messages (run (es @ [MessageEv peerId d uuid now]) (mount initial)))) \<and>
         (distinct (uuid_calls (es @ [MessageEv peerId d uuid now]) (mount initial)) \<longrightarrow>
            uuid \<notin> set (map msg_id (messages (run es (mount initial)))) \<and>
            distinct (map msg_id (messages (run (es @ [MessageEv peerId d uuid now]) (mount initial)))))"
proof (intro conjI impI)
  show "onMessage peerId d uuid now w =
           w\<lparr> messages := messages w @
                [\<lparr> msg_id = uuid, msg_sender = Stranger, msg_text = data_text d,
                   msg_timestamp = now \<rparr>] \<rparr>"
    using assms by (simp add: onMessage_def)
next
  show "\<exists>pre. uuid_calls (es @ [MessageEv peerId d uuid now]) (mount initial) =
          pre @ map msg_id (messages (run (es @ [MessageEv peerId d uuid now]) (mount initial)))"
    by (rule mount_ids_suffix)
next
  let ?w0 = "mount initial"
  let ?e = "MessageEv peerId d uuid now"
  assume h: "distinct (uuid_calls (es @ [?e]) ?w0)"
  have m0: "messages ?w0 = []"
    by (simp add: mount_def initial_def)
  have u: "uuid_calls (es @ [?e]) ?w0 = uuid_calls es ?w0 @ [uuid]"
    using assms by (simp add: uuid_calls_append)
  from h u have n: "uuid \<notin> set (uuid_calls es ?w0)"
    by simp
  have "set (map msg_id (messages (run es ?w0))) \<subseteq> set (uuid_calls es ?w0)"
    using run_ids_subset [of es ?w0] by (simp add: m0)
  with n show "uuid \<notin> set (map msg_id (messages (run es ?w0)))"
    by blast
  have "distinct (map msg_id (messages ?w0) @ uuid_calls (es @ [?e]) ?w0)"
    using h by (simp add: m0)
  from run_ids_distinct [OF this]
  show "distinct (map msg_id (messages (run (es @ [?e]) ?w0)))"
    by simp
qed

theorem chat_message_appended_witness:
  "data_type \<lparr> data_type = ''chat'', data_text = ''hi'' \<rparr> = ''chat'' \<and>
   distinct (uuid_calls
      ([MediaOk ''cam'', PeerResolved 0 ''peer-A'' None, Send ''yo'' ''u0'' 4] @
       [MessageEv ''peer-B'' \<lparr> data_type = ''chat'', data_text = ''hi'' \<rparr> ''u1'' 5])
      (mount initial)) \<and>
   currentPeerId (mount initial) = None \<and>
   messages (onMessage ''peer-B'' \<lparr> data_type = ''chat'', data_text = ''hi'' \<rparr> ''u1'' 5 (mount initial)) =
     [\<lparr> msg_id = ''u1'', msg_sender = Stranger, msg_text = ''hi'', msg_timestamp = 5 \<rparr>] \<and>
   ''u1'' \<notin> set (map msg_id (messages
      (run [MediaOk ''cam'', PeerResolved 0 ''peer-A'' None, Send ''yo'' ''u0'' 4] (mount initial)))) \<and>
   distinct (map msg_id (messages
      (run ([MediaOk ''cam'', PeerResolved 0 ''peer-A'' None, Send ''yo'' ''u0'' 4] @
            [MessageEv ''peer-B'' \<lparr> data_type = ''chat'', data_text = ''hi'' \<rparr> ''u1'' 5])
         (mount initial))))"
proof -
  let ?d = "\<lparr> data_type = ''chat'', data_text = ''hi'' \<rparr>"
  let ?es = "[MediaOk ''cam'', PeerResolved 0 ''peer-A'' None, Send ''yo'' ''u0'' 4]"
  let ?e = "MessageEv ''peer-B'' ?d ''u1'' 5"
  have h: "data_type ?d = ''chat''"
    by simp
  have u: "uuid_calls (?es @ [?e]) (mount initial) = [''u0'', ''u1'']"
    by (simp add: mount_def initial_def handler_defs remove_nth_def)
  have f: "distinct (uuid_calls (?es @ [?e]) (mount initial))"
    by (simp only: u) simp
  have p: "currentPeerId (mount initial) = None"
    by (simp add: mount_def initial_def)
  note t = chat_message_appended [OF h, of "''peer-B''" "''u1''" 5 "mount initial" ?es]
  from t have "onMessage ''peer-B'' ?d ''u1'' 5 (mount initial) =
       (mount initial)\<lparr> messages := messages (mount initial) @
            [\<lparr> msg_id = ''u1'', msg_sender = Stranger, msg_text = data_text ?d,
               msg_timestamp = 5 \<rparr>] \<rparr>"
    by blast
  then have m: "messages (onMessage ''peer-B'' ?d ''u1'' 5 (mount initial)) =
     [\<lparr> msg_id = ''u1'', msg_sender = Stranger, msg_text = ''hi'', msg_timestamp = 5 \<rparr>]"
    by (simp add: mount_def initial_def)
  from t f have c: "''u1'' \<notin> set (map msg_id (messages (run ?es (mount initial))))"
    "distinct (map msg_id (messages (run (?es @ [?e]) (mount initial))))"
    by blast+
  from h f p m c show ?thesis by blast
qed

text \<open>
  C10. A received message whose payload's \<open>type\<close> is not \<open>chat\<close> changes nothing: the
  message list, every other piece of state and every log stay as they were.
\<close>

theorem onMessage_other_type_unchanged:
  "data_type d \<noteq> ''chat'' \<Longrightarrow> onMessage peerId d uuid now w = w"
  by (simp add: onMessage_def)

theorem onMessage_other_type_unchanged_witness:
  "data_type \<lparr> data_type = ''typing'', data_text = ''x'' \<rparr> \<noteq> ''chat'' \<and>
   step (MessageEv ''p1'' \<lparr> data_type = ''typing'', data_text = ''x'' \<rparr> ''u1'' 7) (mount initial)
     = mount initial"
  using onMessage_other_type_unchanged
    [of "\<lparr> data_type = ''typing'', data_text = ''x'' \<rparr>" "''p1''" "''u1''" 7 "mount initial"]
  by simp

subsection \<open>Loss of the connection\<close>

text \<open>
  C6. A connection-state event with state \<open>disconnected\<close>, \<open>failed\<close> or \<open>closed\<close> clears the
  remote stream, the current peer id and the message list and shows the toast
  \<open>Disconnected\<close>; nothing else changes. In particular no call is made on the service, no
  request for a peer is started and no timer is armed: a new peer is sought only when the
  user asks for one.
\<close>

theorem connection_lost_clears:
  "state = ''disconnected'' \<or> state = ''failed'' \<or> state = ''closed'' \<Longrightarrow>
     step (ConnectionStateEv peerId state) w =
       w\<lparr> remoteStream := None, currentPeerId := None, messages := [],
          toasts := toasts w @
            [\<lparr> title = ''Disconnected'',
               description = ''The other person has left the chat.'',
               variant = None \<rparr>] \<rparr> \<and>
     calls (step (ConnectionStateEv peerId state) w) = calls w \<and>
     pending (step (ConnectionStateEv peerId state) w) = pending w \<and>
     timers (step (ConnectionStateEv peerId state) w) = timers w \<and>
     connecting (step (ConnectionStateEv peerId state) w) = connecting w"
  by (simp add: onConnectionStateChange_def)

theorem connection_lost_clears_witness:
  "(''failed'' = ''disconnected'' \<or> ''failed'' = ''failed'' \<or> ''failed'' = ''closed'') \<and>
   messages (run [MediaOk ''cam'', PeerResolved 0 ''peer-A'' (Some ''remote-A''),
                  Send ''hi'' ''u1'' 5] (mount initial)) \<noteq> [] \<and>
   messages (step (ConnectionStateEv ''peer-A'' ''failed'')
      (run [MediaOk ''cam'', PeerResolved 0 ''peer-A'' (Some ''remote-A''),
            Send ''hi'' ''u1'' 5] (mount initial))) = [] \<and>
   currentPeerId (step (ConnectionStateEv ''peer-A'' ''failed'')
      (run [MediaOk ''cam'', PeerResolved 0 ''peer-A'' (Some ''remote-A''),
            Send ''hi'' ''u1'' 5] (mount initial))) = None \<and>
   remoteStream (step (ConnectionStateEv ''peer-A'' ''failed'')
      (run [MediaOk ''cam'', PeerResolved 0 ''peer-A'' (Some ''remote-A''),
            Send ''hi'' ''u1'' 5] (mount initial))) = None \<and>
   pending (step (ConnectionStateEv ''peer-A'' ''failed'')
      (run [MediaOk ''cam'', PeerResolved 0 ''peer-A'' (Some ''remote-A''),
            Send ''hi'' ''u1'' 5] (mount initial))) = [] \<and>
   count_list (calls (step (ConnectionStateEv ''peer-A'' ''failed'')
      (run [MediaOk ''cam'', PeerResolved 0 ''peer-A'' (Some ''remote-A''),
            Send ''hi'' ''u1'' 5] (mount initial)))) ConnectToRandomUser = 1"
proof -
  let ?w = "run [MediaOk ''cam'', PeerResolved 0 ''peer-A'' (Some ''remote-A''),
                 Send ''hi'' ''u1'' 5] (mount initial)"
  have h: "''failed'' = ''disconnected'' \<or> ''failed'' = ''failed'' \<or> ''failed'' = ''closed''"
    by simp
  have m: "messages ?w \<noteq> []" "pending ?w = []"
    "count_list (calls ?w) ConnectToRandomUser = 1"
    by (simp_all add: mount_def initial_def handler_defs remove_nth_def)
  note t = connection_lost_clears [OF h, of "''peer-A''" ?w]
  from t have s: "step (ConnectionStateEv ''peer-A'' ''failed'') ?w =
       ?w\<lparr> remoteStream := None, currentPeerId := None, messages := [],
          toasts := toasts ?w @
            [\<lparr> title = ''Disconnected'',
               description = ''The other person has left the chat.'',
               variant = None \<rparr>] \<rparr>"
    by blast
  have r: "messages (step (ConnectionStateEv ''peer-A'' ''failed'') ?w) = []"
    "currentPeerId (step (ConnectionStateEv ''peer-A'' ''failed'') ?w) = None"
    "remoteStream (step (ConnectionStateEv ''peer-A'' ''failed'') ?w) = None"
    by (subst s, simp)+
  from t m have c: "pending (step (ConnectionStateEv ''peer-A'' ''failed'') ?w) = []"
    "count_list (calls (step (ConnectionStateEv ''peer-A'' ''failed'') ?w)) ConnectToRandomUser = 1"
    by metis+
  from h m(1) r c show ?thesis by blast
qed

subsection \<open>Mute and video\<close>

text \<open>
  C7. From any state, two mute toggles in a row leave the world as it was except for
  exactly two calls of \<open>toggleAudio\<close> added to the log, so the muted flag is back at its
  original value; two video toggles likewise add exactly two calls of \<open>toggleVideo\<close> and
  leave the video flag at its original value.
\<close>

theorem toggles_twice:
  "run [ToggleMute, ToggleMute] w =
     w\<lparr> calls := calls w @ [ToggleAudio (isMuted w), ToggleAudio (\<not> isMuted w)] \<rparr> \<and>
   isMuted (run [ToggleMute, ToggleMute] w) = isMuted w \<and>
   run [ToggleVideoEv, ToggleVideoEv] w =
     w\<lparr> calls := calls w @ [ToggleVideo (\<not> isVideoEnabled w), ToggleVideo (isVideoEnabled w)] \<rparr> \<and>
   isVideoEnabled (run [ToggleVideoEv, ToggleVideoEv] w) = isVideoEnabled w"
  by (simp add: handleToggleMute_def handleToggleVideo_def Let_def)

subsection \<open>Failure to acquire the local media\<close>

lemma step_GetLocalStream:
  "count_list (calls (step e w)) GetLocalStream = count_list (calls w) GetLocalStream"
  by (cases e) (simp_all add: handler_defs Let_def split: option.splits)

lemma run_GetLocalStream:
  "count_list (calls (run es w)) GetLocalStream = count_list (calls w) GetLocalStream"
  by (induction es arbitrary: w) (simp_all add: step_GetLocalStream)

lemma step_quiet:
  "quiet w \<Longrightarrow> e \<noteq> Skip \<Longrightarrow>
     quiet (step e w) \<and>
     count_list (calls (step e w)) ConnectToRandomUser = count_list (calls w) ConnectToRandomUser"
  by (cases e) (simp_all add: quiet_def handler_defs Let_def split: option.splits)

lemma run_quiet:
  "quiet w \<Longrightarrow> Skip \<notin> set es \<Longrightarrow>
     count_list (calls (run es w)) ConnectToRandomUser = count_list (calls w) ConnectToRandomUser"
proof (induction es arbitrary: w)
  case Nil
  then show ?case by simp
next
  case (Cons e es)
  from Cons.prems have q: "quiet (step e w)"
    and c: "count_list (calls (step e w)) ConnectToRandomUser = count_list (calls w) ConnectToRandomUser"
    using step_quiet [of w e] by auto
  from Cons.IH [OF q] Cons.prems c show ?case by simp
qed

text \<open>
  C8. The component is mounted and waits for the local media; no request for a peer is
  outstanding and no timer is armed. When acquiring the media fails, the only effect is the
  destructive toast \<open>Camera access error\<close>: no call is made on the service. Whatever happens
  afterwards, \<open>getLocalStream\<close> is never called again, and as long as the user does not
  press skip no peer is ever requested.
\<close>

theorem media_failure_terminal:
  assumes "mediaPending w" and "pending w = []" and "timers w = []" and "Skip \<notin> set es"
  shows "step MediaFail w =
           w\<lparr> mediaPending := False,
              toasts := toasts w @
                [\<lparr> title = ''Camera access error'',
                   description = ''Please allow camera and microphone access to use this app.'',
                   variant = Some ''destructive'' \<rparr>] \<rparr> \<and>
         calls (step MediaFail w) = calls w \<and>
         count_list (calls (run (MediaFail # es) w)) ConnectToRandomUser =
           count_list (calls w) ConnectToRandomUser \<and>
         count_list (calls (run (MediaFail # es) w)) GetLocalStream =
           count_list (calls w) GetLocalStream"
proof -
  have s: "step MediaFail w =
           w\<lparr> mediaPending := False,
              toasts := toasts w @
                [\<lparr> title = ''Camera access error'',
                   description = ''Please allow camera and microphone access to use this app.'',
                   variant = Some ''destructive'' \<rparr>] \<rparr>"
    using assms(1) by (simp add: init_rejected_def)
  have c: "calls (step MediaFail w) = calls w"
    using assms(1) by (simp add: init_rejected_def)
  have q: "quiet (step MediaFail w)"
    using assms(1,2,3) by (simp add: init_rejected_def quiet_def)
  have r: "count_list (calls (run (MediaFail # es) w)) ConnectToRandomUser =
           count_list (calls w) ConnectToRandomUser"
    using run_quiet [OF q assms(4)] c by simp
  have g: "count_list (calls (run (MediaFail # es) w)) GetLocalStream =
           count_list (calls w) GetLocalStream"
    by (rule run_GetLocalStream)
  from s c r g show ?thesis by blast
qed

theorem media_failure_terminal_witness:
  "mediaPending (mount initial) \<and> pending (mount initial) = [] \<and> timers (mount initial) = [] \<and>
   Skip \<notin> set [ToggleMute, TimerFired 0, MediaOk ''cam''] \<and>
   toasts (step MediaFail (mount initial)) =
      [\<lparr> title = ''Camera access error'',
         description = ''Please allow camera and microphone access to use this app.'',
         variant = Some ''destructive'' \<rparr>] \<and>
   count_list (calls (run [MediaFail, ToggleMute, TimerFired 0, MediaOk ''cam''] (mount initial)))
      ConnectToRandomUser = 0 \<and>
   count_list (calls (run [MediaFail, ToggleMute, TimerFired 0, MediaOk ''cam''] (mount initial)))
      GetLocalStream = 1"
proof -
  have a: "mediaPending (mount initial)" "pending (mount initial) = []"
    "timers (mount initial) = []" "Skip \<notin> set [ToggleMute, TimerFired 0, MediaOk ''cam'']"
    by (simp_all add: mount_def initial_def)
  show ?thesis
    using a media_failure_terminal [OF a]
    by (simp add: mount_def initial_def handler_defs)
qed

subsection \<open>Retrying a failed request for a peer\<close>

lemma retry_round:
  assumes "pending w = [c]" and "timers w = []"
  shows "pending (run [PeerRejected 0, TimerFired 0] w) = [c] \<and>
         timers (run [PeerRejected 0, TimerFired 0] w) = [] \<and>
         timeouts (run [PeerRejected 0, TimerFired 0] w) = timeouts w @ [3000] \<and>
         count_list (calls (run [PeerRejected 0, TimerFired 0] w)) ConnectToRandomUser =
           Suc (count_list (calls w) ConnectToRandomUser)"
  using assms
  by (simp add: handler_defs Let_def remove_nth_def split: option.splits)

lemma retries_Suc: "retries (Suc n) = retries n @ [PeerRejected 0, TimerFired 0]"
proof -
  have "replicate (Suc n) x = replicate n x @ [x]" for x :: "event list"
    by (simp add: replicate_append_same)
  then show ?thesis by (simp add: retries_def)
qed

lemma retries_run:
  assumes "pending w = [c]" and "timers w = []"
  shows "pending (run (retries n) w) = [c] \<and>
         timers (run (retries n) w) = [] \<and>
         timeouts (run (retries n) w) = timeouts w @ replicate n 3000 \<and>
         count_list (calls (run (retries n) w)) ConnectToRandomUser =
           count_list (calls w) ConnectToRandomUser + n"
proof (induction n)
  case 0
  show ?case using assms by (simp add: retries_def)
next
  case (Suc n)
  let ?v = "run (retries n) w"
  from Suc have p: "pending ?v = [c]" and t: "timers ?v = []" by simp_all
  have r: "run (retries (Suc n)) w = run [PeerRejected 0, TimerFired 0] ?v"
    by (simp only: retries_Suc run_append)
  show ?case
    unfolding r using retry_round [OF p t] Suc
    by (simp add: replicate_append_same)
qed

lemma rejected_step:
  "i < length (pending w) \<Longrightarrow>
     timers (step (PeerRejected i) w) = timers w @ [(3000, pending w ! i)] \<and>
     timeouts (step (PeerRejected i) w) = timeouts w @ [3000] \<and>
     calls (step (PeerRejected i) w) = calls w \<and>
     connectionStatus (step (PeerRejected i) w) = ''Connection failed. Retrying...''"
  by (simp add: findNewPeer_rejected_def)

lemma timer_step:
  "j < length (timers w) \<Longrightarrow>
     pending (step (TimerFired j) w) = pending w @ [snd (timers w ! j)] \<and>
     timers (step (TimerFired j) w) = remove_nth j (timers w) \<and>
     timeouts (step (TimerFired j) w) = timeouts w \<and>
     count_list (calls (step (TimerFired j) w)) ConnectToRandomUser =
       Suc (count_list (calls w) ConnectToRandomUser)"
  by (simp add: findNewPeer_def disconnect_existing_def Let_def split: option.splits)

lemma resolved_step:
  "pending w = [c] \<Longrightarrow>
     currentPeerId (step (PeerResolved 0 p rs) w) = Some p \<and>
     pending (step (PeerResolved 0 p rs) w) = [] \<and>
     timeouts (step (PeerResolved 0 p rs) w) = timeouts w \<and>
     count_list (calls (step (PeerResolved 0 p rs) w)) ConnectToRandomUser =
       count_list (calls w) ConnectToRandomUser"
  by (simp add: findNewPeer_resolved_def Let_def remove_nth_def split: option.splits)

text \<open>
  C5. Whenever a request for a peer fails, the status line announces the retry and one
  timer is armed with a delay of 3000 milliseconds, the same at every failure; no call is
  made on the service at that moment. When a timer fires, \<open>findNewPeer\<close> runs again and
  issues one new request. Nothing bounds the number of rounds: when the only outstanding
  request fails \<open>n\<close> times in a row and each timer fires, exactly \<open>n\<close> timers have been
  armed, each with delay 3000, and exactly \<open>n\<close> further requests have been issued, for
  every \<open>n\<close>; a request that then succeeds sets the current peer id. With \<open>n = 2\<close> this is
  the scenario of two failures followed by a success.
\<close>

theorem retry_fixed_delay:
  "(i < length (pending w) \<longrightarrow>
      timers (step (PeerRejected i) w) = timers w @ [(3000, pending w ! i)] \<and>
      timeouts (step (PeerRejected i) w) = timeouts w @ [3000] \<and>
      calls (step (PeerRejected i) w) = calls w \<and>
      connectionStatus (step (PeerRejected i) w) = ''Connection failed. Retrying...'') \<and>
   (j < length (timers w) \<longrightarrow>
      pending (step (TimerFired j) w) = pending w @ [snd (timers w ! j)] \<and>
      timers (step (TimerFired j) w) = remove_nth j (timers w) \<and>
      timeouts (step (TimerFired j) w) = timeouts w \<and>
      count_list (calls (step (TimerFired j) w)) ConnectToRandomUser =
        Suc (count_list (calls w) ConnectToRandomUser)) \<and>
   (pending w = [c] \<and> timers w = [] \<longrightarrow>
      pending (run (retries n) w) = [c] \<and>
      timers (run (retries n) w) = [] \<and>
      timeouts (run (retries n) w) = timeouts w @ replicate n 3000 \<and>
      count_list (calls (run (retries n) w)) ConnectToRandomUser =
        count_list (calls w) ConnectToRandomUser + n \<and>
      currentPeerId (run (retries n @ [PeerResolved 0 p rs]) w) = Some p \<and>
      pending (run (retries n @ [PeerResolved 0 p rs]) w) = [] \<and>
      timeouts (run (retries n @ [PeerResolved 0 p rs]) w) = timeouts w @ replicate n 3000 \<and>
      count_list (calls (run (retries n @ [PeerResolved 0 p rs]) w)) ConnectToRandomUser =
        count_list (calls w) ConnectToRandomUser + n)"
proof (intro conjI impI)
  assume "i < length (pending w)"
  note a = rejected_step [OF this]
  from a show "timers (step (PeerRejected i) w) = timers w @ [(3000, pending w ! i)]" by blast
  from a show "timeouts (step (PeerRejected i) w) = timeouts w @ [3000]" by blast
  from a show "calls (step (PeerRejected i) w) = calls w" by blast
  from a show "connectionStatus (step (PeerRejected i) w) = ''Connection failed. Retrying...''"
    by blast
next
  assume "j < length (timers w)"
  note b = timer_step [OF this]
  from b show "pending (step (TimerFired j) w) = pending w @ [snd (timers w ! j)]" by blast
  from b show "timers (step (TimerFired j) w) = remove_nth j (timers w)" by blast
  from b show "timeouts (step (TimerFired j) w) = timeouts w" by blast
  from b show "count_list (calls (step (TimerFired j) w)) ConnectToRandomUser =
        Suc (count_list (calls w) ConnectToRandomUser)" by blast
next
  assume h: "pending w = [c] \<and> timers w = []"
  then have h1: "pending w = [c]" and h2: "timers w = []" by simp_all
  note r = retries_run [OF h1 h2, of n]
  let ?v = "run (retries n) w"
  from r have pv: "pending ?v = [c]" by blast
  note s = resolved_step [OF pv, of p rs]
  have e: "run (retries n @ [PeerResolved 0 p rs]) w = step (PeerResolved 0 p rs) ?v"
    by (simp add: run_append)
  from r show "pending ?v = [c]" by blast
  from r show "timers ?v = []" by blast
  from r show "timeouts ?v = timeouts w @ replicate n 3000" by blast
  from r show "count_list (calls ?v) ConnectToRandomUser =
        count_list (calls w) ConnectToRandomUser + n" by blast
  from s show "currentPeerId (run (retries n @ [PeerResolved 0 p rs]) w) = Some p"
    unfolding e by blast
  from s show "pending (run (retries n @ [PeerResolved 0 p rs]) w) = []"
    unfolding e by blast
  from s r show "timeouts (run (retries n @ [PeerResolved 0 p rs]) w) = timeouts w @ replicate n 3000"
    unfolding e by metis
  from s r show "count_list (calls (run (retries n @ [PeerResolved 0 p rs]) w)) ConnectToRandomUser =
        count_list (calls w) ConnectToRandomUser + n"
    unfolding e by metis
qed

theorem retry_fixed_delay_witness:
  "0 < length (pending (run [MediaOk ''cam''] (mount initial))) \<and>
   timers (step (PeerRejected 0) (run [MediaOk ''cam''] (mount initial))) = [(3000, None)] \<and>
   0 < length (timers (run [MediaOk ''cam'', PeerRejected 0] (mount initial))) \<and>
   pending (step (TimerFired 0) (run [MediaOk ''cam'', PeerRejected 0] (mount initial))) = [None] \<and>
   pending (run [MediaOk ''cam''] (mount initial)) = [None] \<and>
   timers (run [MediaOk ''cam''] (mount initial)) = [] \<and>
   retries 2 = [PeerRejected 0, TimerFired 0, PeerRejected 0, TimerFired 0] \<and>
   timeouts (run (retries 2 @ [PeerResolved 0 ''peer-A'' None]) (run [MediaOk ''cam''] (mount initial)))
     = [3000, 3000] \<and>
   count_list (calls (run (retries 2 @ [PeerResolved 0 ''peer-A'' None])
       (run [MediaOk ''cam''] (mount initial)))) ConnectToRandomUser = 3 \<and>
   currentPeerId (run (retries 2 @ [PeerResolved 0 ''peer-A'' None])
       (run [MediaOk ''cam''] (mount initial))) = Some ''peer-A''"
proof -
  let ?w = "run [MediaOk ''cam''] (mount initial)"
  let ?u = "run [MediaOk ''cam'', PeerRejected 0] (mount initial)"
  let ?v = "run (retries 2 @ [PeerResolved 0 ''peer-A'' None]) ?w"
  have a: "pending ?w = [None]" "timers ?w = []" "0 < length (pending ?w)" "pending ?w ! 0 = None"
    by (simp_all add: mount_def initial_def handler_defs)
  have b: "0 < length (timers ?u)" "pending ?u @ [snd (timers ?u ! 0)] = [None]"
    by (simp_all add: mount_def initial_def handler_defs remove_nth_def)
  have c: "count_list (calls ?w) ConnectToRandomUser = 1" "timeouts ?w = []"
    by (simp_all add: mount_def initial_def handler_defs)
  have r: "retries 2 = [PeerRejected 0, TimerFired 0, PeerRejected 0, TimerFired 0]"
    by (simp add: retries_def numeral_2_eq_2)
  have n: "replicate 2 (3000::nat) = [3000, 3000]"
    by (simp add: numeral_2_eq_2)
  have m: "(1::nat) + 2 = 3"
    by simp
  note t = retry_fixed_delay [of 0 ?w 0 None 2 "''peer-A''" None]
  note t' = retry_fixed_delay [of 0 ?u 0 None 0 "''peer-A''" None]
  from t a have "timers (step (PeerRejected 0) ?w) = timers ?w @ [(3000, pending ?w ! 0)]"
    by blast
  then have d1: "timers (step (PeerRejected 0) ?w) = [(3000, None)]"
    by (simp only: a(2) append_Nil) (simp only: a(4))
  from t' b(1) have "pending (step (TimerFired 0) ?u) = pending ?u @ [snd (timers ?u ! 0)]"
    by blast
  then have d2: "pending (step (TimerFired 0) ?u) = [None]"
    by (simp only: b)
  from t a have "timeouts ?v = timeouts ?w @ replicate 2 3000"
    by blast
  then have e1: "timeouts ?v = [3000, 3000]"
    by (simp only: c n append_Nil)
  from t a have "count_list (calls ?v) ConnectToRandomUser =
      count_list (calls ?w) ConnectToRandomUser + 2"
    by blast
  then have e2: "count_list (calls ?v) ConnectToRandomUser = 3"
    by (simp only: c m)
  from t a have e3: "currentPeerId ?v = Some ''peer-A''"
    by blast
  from a b(1) r d1 d2 e1 e2 e3 show ?thesis
    by blast
qed


section \<open>Properties of the visitor counter\<close>

declare dec.simps [simp del]

lemma digit_char_ok: "d < 10 \<Longrightarrow> is_digit (digit_char d) \<and> digit_val (digit_char d) = d"
  by (simp add: is_digit_def digit_val_def digit_char_def)

lemma dec_digits: "\<forall>c \<in> set (dec n). is_digit c"
proof (induction n rule: dec.induct)
  case (1 n)
  show ?case
  proof (cases "n < 10")
    case True
    then show ?thesis by (simp add: dec.simps [of n] digit_char_ok)
  next
    case False
    have "n mod 10 < 10" by simp
    then have "is_digit (digit_char (n mod 10))" by (simp add: digit_char_ok)
    with False 1 show ?thesis by (simp add: dec.simps [of n])
  qed
qed

lemma dec_nonempty: "dec n \<noteq> []"
  by (simp add: dec.simps [of n])

lemma digits_val_snoc: "digits_val (z @ [c]) = 10 * digits_val z + digit_val c"
  by (simp add: digits_val_def)

lemma digits_val_dec: "digits_val (dec n) = n"
proof (induction n rule: dec.induct)
  case (1 n)
  show ?case
  proof (cases "n < 10")
    case True
    then show ?thesis by (simp add: dec.simps [of n] digits_val_def digit_char_ok)
  next
    case False
    have "n mod 10 < 10" by simp
    then have "digit_val (digit_char (n mod 10)) = n mod 10" by (simp add: digit_char_ok)
    with False 1 show ?thesis by (simp add: dec.simps [of n] digits_val_snoc)
  qed
qed

lemma digit_not_special:
  "is_digit c \<Longrightarrow> \<not> is_space c \<and> c \<noteq> CHR ''-'' \<and> c \<noteq> CHR ''+''"
  by (auto simp: is_digit_def is_space_def)

lemma parseInt10_dec: "parseInt10 (dec n) = Num (int n)"
proof -
  obtain c r where cr: "dec n = c # r"
    using dec_nonempty [of n] by (cases "dec n") auto
  have all: "\<forall>x \<in> set (dec n). is_digit x" by (rule dec_digits)
  then have c: "is_digit c" by (simp add: cr)
  have d: "dropWhile is_space (dec n) = dec n"
    using digit_not_special [OF c] by (simp add: cr)
  have t: "takeWhile is_digit (dec n) = dec n"
    using all by (simp add: takeWhile_eq_all_conv)
  have h: "hd (dec n) \<noteq> CHR ''-''" "hd (dec n) \<noteq> CHR ''+''"
    using digit_not_special [OF c] by (simp_all add: cr)
  show ?thesis
    by (simp add: parseInt10_def Let_def d t h dec_nonempty digits_val_dec)
qed

lemma currentCount_stored:
  "currentCount (ls(''visitor-count'' \<mapsto> dec n)) = Num (int n)"
  by (simp add: currentCount_def dec_nonempty parseInt10_dec)

lemma effect_first:
  assumes "currentCount (localStorage b) = Num n" and "0 \<le> n"
    and "\<not> truthy (sessionStorage b ''counted-visit'')"
  shows "VisitorCounter_effect b =
           b\<lparr> localStorage := (localStorage b)(''visitor-count'' \<mapsto> dec (nat (n + 1))),
              sessionStorage := (sessionStorage b)(''counted-visit'' \<mapsto> ''true''),
              visitorCount := Num (n + 1) \<rparr>"
  using assms by (simp add: VisitorCounter_effect_def Let_def)

lemma effect_later:
  assumes "truthy (sessionStorage b ''counted-visit'')"
  shows "VisitorCounter_effect b = b\<lparr> visitorCount := currentCount (localStorage b) \<rparr>"
  using assms by (simp add: VisitorCounter_effect_def Let_def)

lemma effect_idem:
  assumes "currentCount (localStorage b) = Num n" and "0 \<le> n"
    and "\<not> truthy (sessionStorage b ''counted-visit'')"
  shows "VisitorCounter_effect (VisitorCounter_effect b) = VisitorCounter_effect b"
proof -
  let ?b = "VisitorCounter_effect b"
  have f: "?b = b\<lparr> localStorage := (localStorage b)(''visitor-count'' \<mapsto> dec (nat (n + 1))),
              sessionStorage := (sessionStorage b)(''counted-visit'' \<mapsto> ''true''),
              visitorCount := Num (n + 1) \<rparr>"
    by (rule effect_first [OF assms])
  have t: "truthy (sessionStorage ?b ''counted-visit'')"
    by (simp add: f)
  have c: "currentCount (localStorage ?b) = Num (n + 1)"
    using assms(2) by (simp add: f currentCount_stored)
  have v: "visitorCount ?b = Num (n + 1)"
    by (simp add: f)
  show ?thesis
    using effect_later [OF t] c v by simp
qed

lemma effect_funpow:
  assumes "currentCount (localStorage b) = Num n" and "0 \<le> n"
    and "\<not> truthy (sessionStorage b ''counted-visit'')"
  shows "(VisitorCounter_effect ^^ Suc k) b = VisitorCounter_effect b"
proof (induction k)
  case 0
  show ?case by simp
next
  case (Suc k)
  have "(VisitorCounter_effect ^^ Suc (Suc k)) b =
        VisitorCounter_effect ((VisitorCounter_effect ^^ Suc k) b)"
    by simp
  also have "\<dots> = VisitorCounter_effect (VisitorCounter_effect b)"
    by (simp only: Suc)
  also have "\<dots> = VisitorCounter_effect b"
    by (rule effect_idem [OF assms])
  finally show ?case .
qed


text \<open>
  C3. The persisted value reads as a count \<open>n\<close> below \<open>2 ^ 53\<close> (a missing key reads as
  0) and the browsing session has not been counted yet. Then the first mount of the session
  stores \<open>n + 1\<close>, sets the flag \<open>counted-visit\<close> of the session and displays \<open>n + 1\<close>; any
  number of further mounts in the same session leaves both stores as they are and displays
  the same number, so the session adds exactly 1 to the persisted count. On the first visit
  ever the number displayed is 1.
\<close>

theorem visitor_count_once_per_session:
  assumes "currentCount (localStorage b) = Num n" and "0 \<le> n" and "n < 2 ^ 53"
    and "\<not> truthy (sessionStorage b ''counted-visit'')"
  shows "currentCount (localStorage (VisitorCounter_effect b)) = Num (n + 1) \<and>
         localStorage (VisitorCounter_effect b) =
           (localStorage b)(''visitor-count'' \<mapsto> toString (Num (n + 1))) \<and>
         sessionStorage (VisitorCounter_effect b) =
           (sessionStorage b)(''counted-visit'' \<mapsto> ''true'') \<and>
         visitorCount (VisitorCounter_effect b) = Num (n + 1) \<and>
         (VisitorCounter_effect ^^ Suc k) b = VisitorCounter_effect b \<and>
         (localStorage b ''visitor-count'' = None \<longrightarrow>
            visitorCount (VisitorCounter_effect b) = Num 1)"
proof -
  note f = effect_first [OF assms(1,2,4)]
  have c: "currentCount (localStorage (VisitorCounter_effect b)) = Num (n + 1)"
    using assms(2) by (simp add: f currentCount_stored)
  have l: "localStorage (VisitorCounter_effect b) =
           (localStorage b)(''visitor-count'' \<mapsto> toString (Num (n + 1)))"
    using assms(2) by (simp add: f)
  have s: "sessionStorage (VisitorCounter_effect b) =
           (sessionStorage b)(''counted-visit'' \<mapsto> ''true'')"
    by (simp add: f)
  have v: "visitorCount (VisitorCounter_effect b) = Num (n + 1)"
    by (simp add: f)
  have p: "(VisitorCounter_effect ^^ Suc k) b = VisitorCounter_effect b"
    by (rule effect_funpow [OF assms(1,2,4)])
  have e: "localStorage b ''visitor-count'' = None \<longrightarrow>
            visitorCount (VisitorCounter_effect b) = Num 1"
  proof
    assume "localStorage b ''visitor-count'' = None"
    then have "currentCount (localStorage b) = Num 0"
      by (simp add: currentCount_def)
    with assms(1) have "n = 0" by simp
    with v show "visitorCount (VisitorCounter_effect b) = Num 1" by simp
  qed
  from c l s v p e show ?thesis by blast
qed

theorem visitor_count_once_per_session_witness:
  "currentCount (localStorage first_visit) = Num 0 \<and> (0::int) \<le> 0 \<and> (0::int) < 2 ^ 53 \<and>
   \<not> truthy (sessionStorage first_visit ''counted-visit'') \<and>
   visitorCount (VisitorCounter_effect first_visit) = Num 1 \<and>
   localStorage (VisitorCounter_effect first_visit) ''visitor-count'' = Some ''1'' \<and>
   VisitorCounter_effect (VisitorCounter_effect (VisitorCounter_effect first_visit)) =
     VisitorCounter_effect first_visit"
proof -
  have a: "currentCount (localStorage first_visit) = Num 0" "(0::int) \<le> 0" "(0::int) < 2 ^ 53"
    "\<not> truthy (sessionStorage first_visit ''counted-visit'')"
    by (simp_all add: first_visit_def currentCount_def)
  note t = visitor_count_once_per_session [OF a, of 2]
  from t have v: "visitorCount (VisitorCounter_effect first_visit) = Num 1"
    by simp
  from t have "localStorage (VisitorCounter_effect first_visit) =
     (localStorage first_visit)(''visitor-count'' \<mapsto> toString (Num (0 + 1)))"
    by blast
  moreover have "toString (Num (0 + 1)) = ''1''"
    by code_simp
  ultimately have l: "localStorage (VisitorCounter_effect first_visit) ''visitor-count'' = Some ''1''"
    by simp
  from t have "(VisitorCounter_effect ^^ Suc 2) first_visit = VisitorCounter_effect first_visit"
    by blast
  then have p: "VisitorCounter_effect (VisitorCounter_effect (VisitorCounter_effect first_visit)) =
     VisitorCounter_effect first_visit"
    by (simp add: numeral_2_eq_2)
  from a v l p show ?thesis by blast
qed

text \<open>A second browsing session after the first visit displays 2.\<close>

lemma second_session:
  "visitorCount (VisitorCounter_effect
     ((VisitorCounter_effect first_visit)\<lparr> sessionStorage := Map.empty \<rparr>)) = Num 2"
  by code_simp

end
